theory Spec2Isabelle
  imports Main "HOL-Library.AList"
begin

section \<open>Data model (models.py)\<close>

text \<open>
  \<^verbatim>\<open>RelatedFile\<close> and \<^verbatim>\<open>AppEntry\<close> are Python dataclasses. Only the fields that take
  part in dataclass equality and that the resolution engine reads are kept; the private
  caches (\<^verbatim>\<open>compare=False\<close>) are memoisation only. Python strings are modelled as
  \<^typ>\<open>string\<close>, Python's unbounded integers as \<^typ>\<open>int\<close>.
\<close>

record RelatedFile =
  path :: string
  kind :: string
  source :: string
  confidence :: string
  marked :: string
  score :: int

record AppEntry =
  name :: string
  version :: string
  publisher :: string
  install_location :: string
  related_files :: "RelatedFile list"

text \<open>Decimal rendering of a length, as the f-string in \<^verbatim>\<open>AppEntry.key\<close> does.\<close>

definition digit_char :: "nat \<Rightarrow> char" where
  "digit_char d = char_of (48 + d)"

function str_of_nat :: "nat \<Rightarrow> string" where
  "str_of_nat n = (if n < 10 then [digit_char n]
                   else str_of_nat (n div 10) @ [digit_char (n mod 10)])"
  by pat_completeness auto
termination
  by (relation "measure id") auto

declare str_of_nat.simps [simp del]

text \<open>\<^verbatim>\<open>AppEntry.key\<close>: \<^verbatim>\<open>f"{len(name)}|{name}|{len(version)}|{version}"\<close>.\<close>

definition key :: "AppEntry \<Rightarrow> string" where
  "key a = str_of_nat (length (name a)) @ ''|'' @ name a @ ''|''
           @ str_of_nat (length (version a)) @ ''|'' @ version a"

section \<open>Path normalisation (main_controller.py)\<close>

text \<open>
  \<^verbatim>\<open>str.strip()\<close> removes leading and trailing white space; these are the code points
  below 256 for which \<^verbatim>\<open>str.isspace\<close> holds. \<^verbatim>\<open>str.strip('"')\<close> removes double quotes.
\<close>

definition py_isspace :: "char \<Rightarrow> bool" where
  "py_isspace c = (of_char c \<in> {9, 10, 11, 12, 13, 28, 29, 30, 31, 32, 133, 160 :: nat})"

definition strip_by :: "(char \<Rightarrow> bool) \<Rightarrow> string \<Rightarrow> string" where
  "strip_by P s = rev (dropWhile P (rev (dropWhile P s)))"

definition py_strip :: "string \<Rightarrow> string" where
  "py_strip s = strip_by py_isspace s"

definition is_dquote :: "char \<Rightarrow> bool" where
  "is_dquote c = (c = CHR 0x22)"

definition strip_quotes :: "string \<Rightarrow> string" where
  "strip_quotes s = strip_by is_dquote s"

text \<open>
  \<^verbatim>\<open>_normalize_path_cached\<close> / \<^verbatim>\<open>_normalize_related_path\<close>. The operating-system part,
  \<^verbatim>\<open>os.path.normcase(os.path.abspath(cleaned))\<close> with its \<^verbatim>\<open>casefold\<close> fallback on
  \<^verbatim>\<open>OSError\<close>, is the parameter \<open>nc\<close>. The dictionary \<^verbatim>\<open>_path_norm_cache\<close> only
  memoises this function and is left out.
\<close>

definition normalize_related_path :: "(string \<Rightarrow> string) \<Rightarrow> string \<Rightarrow> string" where
  "normalize_related_path nc p =
     (let cleaned = strip_quotes (py_strip p)
      in if cleaned = [] then [] else nc cleaned)"

section \<open>Override records and the four layers (main_controller.py)\<close>

text \<open>
  The override dictionaries of \<^verbatim>\<open>MainController\<close>. Python dictionaries iterate in
  insertion order, so they are association lists; \<^const>\<open>AList.update\<close> overwrites in
  place and appends a new key, as assignment to a \<^verbatim>\<open>dict\<close> does.
\<close>

record ManualEntry =
  me_path :: string
  me_kind :: string

record Controller =
  related_manual :: "(string \<times> ManualEntry list) list"
  related_ignore :: "(string \<times> string list) list"
  related_unassigned :: "(string \<times> string list) list"
  related_overrides :: "(string \<times> string) list"

subsection \<open>Manual layer: \<^verbatim>\<open>_apply_manual_related\<close>\<close>

text \<open>The inner loop over one application's manual records, filling \<^verbatim>\<open>manual_by_path\<close>.\<close>

fun manual_items ::
  "(string \<Rightarrow> string) \<Rightarrow> string \<Rightarrow> ManualEntry list
     \<Rightarrow> (string \<times> string \<times> string \<times> string) list
     \<Rightarrow> (string \<times> string \<times> string \<times> string) list" where
  "manual_items nc app_key [] m = m"
| "manual_items nc app_key (e # es) m =
     (let p = py_strip (me_path e) in
      if p = [] then manual_items nc app_key es m
      else
        let k0 = py_strip (if me_kind e = [] then ''file'' else me_kind e);
            k = (if k0 = [] then ''file'' else k0);
            norm = normalize_related_path nc p
        in if norm = [] then manual_items nc app_key es m
           else manual_items nc app_key es (AList.update norm (app_key, k, p) m))"

fun manual_by_path ::
  "(string \<Rightarrow> string) \<Rightarrow> string list \<Rightarrow> (string \<times> ManualEntry list) list
     \<Rightarrow> (string \<times> string \<times> string \<times> string) list
     \<Rightarrow> (string \<times> string \<times> string \<times> string) list" where
  "manual_by_path nc keys [] m = m"
| "manual_by_path nc keys ((app_key, items) # rest) m =
     (if app_key \<notin> set keys then manual_by_path nc keys rest m
      else manual_by_path nc keys rest (manual_items nc app_key items m))"

text \<open>The filtering loop over one application's list, with its \<^verbatim>\<open>seen\<close> set.\<close>

fun manual_keep ::
  "(string \<Rightarrow> string) \<Rightarrow> (string \<times> string \<times> string \<times> string) list \<Rightarrow> string
     \<Rightarrow> string set \<Rightarrow> RelatedFile list \<Rightarrow> RelatedFile list" where
  "manual_keep nc mbp app_key seen [] = []"
| "manual_keep nc mbp app_key seen (r # rs) =
     (let norm = normalize_related_path nc (path r) in
      if norm = [] then manual_keep nc mbp app_key seen rs
      else case map_of mbp norm of
        Some (owner, k, p) \<Rightarrow>
          if owner \<noteq> app_key then manual_keep nc mbp app_key seen rs
          else if source r \<noteq> ''manual'' then manual_keep nc mbp app_key seen rs
          else if norm \<in> seen then manual_keep nc mbp app_key seen rs
          else r # manual_keep nc mbp app_key (insert norm seen) rs
      | None \<Rightarrow>
          if norm \<in> seen then manual_keep nc mbp app_key seen rs
          else r # manual_keep nc mbp app_key (insert norm seen) rs)"

text \<open>
  \<^verbatim>\<open>app_by_key.get(app_key)\<close> is the last application of the list with that key (a later
  entry of the dict comprehension overwrites an earlier one); \<open>upd_last\<close> applies an update
  to exactly that application.
\<close>

fun upd_last :: "(AppEntry \<Rightarrow> AppEntry) \<Rightarrow> string \<Rightarrow> AppEntry list \<Rightarrow> AppEntry list" where
  "upd_last f k [] = []"
| "upd_last f k (a # as) =
     (if key a = k \<and> k \<notin> set (map key as) then f a # as else a # upd_last f k as)"

definition manual_record :: "string \<Rightarrow> string \<Rightarrow> RelatedFile" where
  "manual_record raw_path k =
     \<lparr>path = raw_path, kind = k, source = ''manual'', confidence = ''High'',
      marked = ''keep'', score = 0\<rparr>"

definition manual_append ::
  "(string \<Rightarrow> string) \<Rightarrow> string \<Rightarrow> string \<Rightarrow> string \<Rightarrow> AppEntry \<Rightarrow> AppEntry" where
  "manual_append nc norm k raw_path a =
     (if \<exists>r \<in> set (related_files a). normalize_related_path nc (path r) = norm then a
      else a\<lparr>related_files := related_files a @ [manual_record raw_path k]\<rparr>)"

fun manual_attach ::
  "(string \<Rightarrow> string) \<Rightarrow> (string \<times> string \<times> string \<times> string) list
     \<Rightarrow> AppEntry list \<Rightarrow> AppEntry list" where
  "manual_attach nc [] apps = apps"
| "manual_attach nc ((norm, app_key, k, raw_path) # rest) apps =
     manual_attach nc rest (upd_last (manual_append nc norm k raw_path) app_key apps)"

definition apply_manual_related ::
  "(string \<Rightarrow> string) \<Rightarrow> Controller \<Rightarrow> AppEntry list \<Rightarrow> AppEntry list" where
  "apply_manual_related nc c apps =
     (if related_manual c = [] then apps
      else if apps = [] then apps
      else
        let mbp = manual_by_path nc (map key apps) (related_manual c) [] in
        if mbp = [] then apps
        else manual_attach nc mbp
               (map (\<lambda>a. a\<lparr>related_files := manual_keep nc mbp (key a) {} (related_files a)\<rparr>)
                    apps))"

subsection \<open>Ignore and unassigned layers\<close>

text \<open>
  Both \<^verbatim>\<open>_apply_related_ignores\<close> and \<^verbatim>\<open>_apply_related_unassigned\<close> first build a
  dictionary from application key to the set of normalised paths (skipping empty paths and
  empty sets), then filter every application that has an entry in it.
\<close>

fun norms_by_key ::
  "(string \<Rightarrow> string) \<Rightarrow> (string \<times> string list) list \<Rightarrow> (string \<times> string set) list
     \<Rightarrow> (string \<times> string set) list" where
  "norms_by_key nc [] m = m"
| "norms_by_key nc ((app_key, items) # rest) m =
     (let norms = set (map (normalize_related_path nc) (filter (\<lambda>p. p \<noteq> []) items))
      in if norms \<noteq> {} then norms_by_key nc rest (AList.update app_key norms m)
         else norms_by_key nc rest m)"

definition drop_listed :: "(string \<Rightarrow> string) \<Rightarrow> string set \<Rightarrow> RelatedFile list \<Rightarrow> RelatedFile list" where
  "drop_listed nc norms rs =
     filter (\<lambda>r. \<not> (normalize_related_path nc (path r) \<noteq> []
                    \<and> normalize_related_path nc (path r) \<in> norms
                    \<and> source r \<noteq> ''manual'')) rs"

definition apply_norm_filter ::
  "(string \<Rightarrow> string) \<Rightarrow> (string \<times> string list) list \<Rightarrow> AppEntry list \<Rightarrow> AppEntry list" where
  "apply_norm_filter nc recs apps =
     (if recs = [] then apps
      else
        let m = norms_by_key nc recs [] in
        if m = [] then apps
        else map (\<lambda>a. case map_of m (key a) of
                         None \<Rightarrow> a
                       | Some norms \<Rightarrow> a\<lparr>related_files := drop_listed nc norms (related_files a)\<rparr>)
                 apps)"

definition apply_related_ignores ::
  "(string \<Rightarrow> string) \<Rightarrow> Controller \<Rightarrow> AppEntry list \<Rightarrow> AppEntry list" where
  "apply_related_ignores nc c apps = apply_norm_filter nc (related_ignore c) apps"

definition apply_related_unassigned ::
  "(string \<Rightarrow> string) \<Rightarrow> Controller \<Rightarrow> AppEntry list \<Rightarrow> AppEntry list" where
  "apply_related_unassigned nc c apps = apply_norm_filter nc (related_unassigned c) apps"

subsection \<open>Reassignment layer: \<^verbatim>\<open>_apply_related_overrides\<close>\<close>

text \<open>\<^verbatim>\<open>path_lookup\<close>: the first record seen for every non-empty normalised path.\<close>

fun path_lookup_add ::
  "(string \<Rightarrow> string) \<Rightarrow> RelatedFile list \<Rightarrow> (string \<rightharpoonup> RelatedFile) \<Rightarrow> (string \<rightharpoonup> RelatedFile)" where
  "path_lookup_add nc [] m = m"
| "path_lookup_add nc (r # rs) m =
     (let norm = normalize_related_path nc (path r) in
      if norm = [] then path_lookup_add nc rs m
      else if m norm = None then path_lookup_add nc rs (m(norm \<mapsto> r))
      else path_lookup_add nc rs m)"

fun path_lookup ::
  "(string \<Rightarrow> string) \<Rightarrow> AppEntry list \<Rightarrow> (string \<rightharpoonup> RelatedFile) \<Rightarrow> (string \<rightharpoonup> RelatedFile)" where
  "path_lookup nc [] m = m"
| "path_lookup nc (a # as) m = path_lookup nc as (path_lookup_add nc (related_files a) m)"

text \<open>
  \<^verbatim>\<open>new_lists\<close> maps an application key to the list built so far; \<^verbatim>\<open>seen_by_app[key]\<close>
  always holds exactly the normalised paths of \<^verbatim>\<open>new_lists[key]\<close>, so it is read off
  the list. A falsy (empty) target key leaves the record where it is.
\<close>

definition seen_in :: "(string \<Rightarrow> string) \<Rightarrow> RelatedFile list \<Rightarrow> string set" where
  "seen_in nc rs = set (map (\<lambda>r. normalize_related_path nc (path r)) rs)"

fun override_keep ::
  "(string \<Rightarrow> string) \<Rightarrow> (string \<times> string) list \<Rightarrow> string \<Rightarrow> RelatedFile list
     \<Rightarrow> RelatedFile list \<Rightarrow> RelatedFile list" where
  "override_keep nc ovr app_key [] acc = acc"
| "override_keep nc ovr app_key (r # rs) acc =
     (let norm = normalize_related_path nc (path r) in
      if norm = [] then override_keep nc ovr app_key rs acc
      else case map_of ovr norm of
        Some target \<Rightarrow>
          if target \<noteq> [] \<and> target \<noteq> app_key then override_keep nc ovr app_key rs acc
          else if norm \<in> seen_in nc acc then override_keep nc ovr app_key rs acc
          else override_keep nc ovr app_key rs (acc @ [r])
      | None \<Rightarrow>
          if norm \<in> seen_in nc acc then override_keep nc ovr app_key rs acc
          else override_keep nc ovr app_key rs (acc @ [r]))"

fun override_lists ::
  "(string \<Rightarrow> string) \<Rightarrow> (string \<times> string) list \<Rightarrow> AppEntry list
     \<Rightarrow> (string \<Rightarrow> RelatedFile list) \<Rightarrow> (string \<Rightarrow> RelatedFile list)" where
  "override_lists nc ovr [] nl = nl"
| "override_lists nc ovr (a # as) nl =
     override_lists nc ovr as
       (nl(key a := override_keep nc ovr (key a) (related_files a) (nl (key a))))"

fun override_attach ::
  "(string \<Rightarrow> string) \<Rightarrow> string set \<Rightarrow> (string \<rightharpoonup> RelatedFile) \<Rightarrow> (string \<times> string) list
     \<Rightarrow> (string \<Rightarrow> RelatedFile list) \<Rightarrow> (string \<Rightarrow> RelatedFile list)" where
  "override_attach nc keys pl [] nl = nl"
| "override_attach nc keys pl ((norm, target) # rest) nl =
     (if target \<notin> keys then override_attach nc keys pl rest nl
      else case pl norm of
        None \<Rightarrow> override_attach nc keys pl rest nl
      | Some r \<Rightarrow>
          if norm \<in> seen_in nc (nl target) then override_attach nc keys pl rest nl
          else override_attach nc keys pl rest (nl(target := nl target @ [r])))"

definition apply_related_overrides ::
  "(string \<Rightarrow> string) \<Rightarrow> Controller \<Rightarrow> AppEntry list \<Rightarrow> AppEntry list" where
  "apply_related_overrides nc c apps =
     (if related_overrides c = [] then apps
      else if apps = [] then apps
      else
        let pl = path_lookup nc apps Map.empty;
            nl = override_lists nc (related_overrides c) apps (\<lambda>k. []);
            nl' = override_attach nc (set (map key apps)) pl (related_overrides c) nl
        in map (\<lambda>a. a\<lparr>related_files := nl' (key a)\<rparr>) apps)"

subsection \<open>The compositor: the four calls of \<^verbatim>\<open>_apply_scan_results\<close>\<close>

text \<open>
  \<^verbatim>\<open>_apply_scan_results\<close> (lines 572--575), the \<^verbatim>\<open>related_complete\<close> handler,
  \<^verbatim>\<open>on_related_add_files\<close>, \<^verbatim>\<open>on_related_add_folder\<close> and \<^verbatim>\<open>on_deep_scan_add\<close> all
  run the same four statements on \<^verbatim>\<open>self.all_apps\<close>, each mutating the lists the
  previous one left.
\<close>

definition apply_layers ::
  "(string \<Rightarrow> string) \<Rightarrow> Controller \<Rightarrow> AppEntry list \<Rightarrow> AppEntry list" where
  "apply_layers nc c all_apps =
     (let apps1 = apply_manual_related nc c all_apps;
          apps2 = apply_related_overrides nc c apps1;
          apps3 = apply_related_ignores nc c apps2;
          apps4 = apply_related_unassigned nc c apps3
      in apps4)"

text \<open>
  The order as the specification words it (manual, ignore, unassigned, reassignment last),
  kept only to compare it with \<^const>\<open>apply_layers\<close>.
\<close>

definition spec_order_layers ::
  "(string \<Rightarrow> string) \<Rightarrow> Controller \<Rightarrow> AppEntry list \<Rightarrow> AppEntry list" where
  "spec_order_layers nc c all_apps =
     (let apps1 = apply_manual_related nc c all_apps;
          apps2 = apply_related_ignores nc c apps1;
          apps3 = apply_related_unassigned nc c apps2;
          apps4 = apply_related_overrides nc c apps3
      in apps4)"

text \<open>The set of normalised paths ignored for (or unassigned from) an application key.\<close>

definition listed_norms ::
  "(string \<Rightarrow> string) \<Rightarrow> (string \<times> string list) list \<Rightarrow> string \<Rightarrow> string set" where
  "listed_norms nc recs k =
     (case map_of (norms_by_key nc recs []) k of None \<Rightarrow> {} | Some norms \<Rightarrow> norms)"

section \<open>Auxiliary notions for the override layers\<close>

abbreviation rnorm :: "(string \<Rightarrow> string) \<Rightarrow> RelatedFile \<Rightarrow> string" where
  "rnorm nc r \<equiv> normalize_related_path nc (path r)"

















section \<open>Cross-application deduplication (related_scanner.py)\<close>

text \<open>
  The weight tables of \<^verbatim>\<open>RelatedFileScanner.__init__\<close>; \<^verbatim>\<open>dict.get(key, 0)\<close> gives 0
  for a key that is not in the table.
\<close>

definition source_scores :: "(string \<times> int) list" where
  "source_scores =
     [(''install_location'', 100), (''appdata'', 70), (''localappdata'', 70),
      (''localappdata_low'', 60), (''programdata'', 60), (''documents'', 50),
      (''saved_games'', 50), (''drive'', 40)]"

definition confidence_scores :: "(string \<times> int) list" where
  "confidence_scores = [(''High'', 30), (''Medium'', 20), (''Low'', 10), ('''', 0)]"

definition get_or_zero :: "(string \<times> int) list \<Rightarrow> string \<Rightarrow> int" where
  "get_or_zero tbl k = (case map_of tbl k of None \<Rightarrow> 0 | Some v \<Rightarrow> v)"

text \<open>\<^verbatim>\<open>_score_related\<close> (its \<^verbatim>\<open>path\<close> argument is not used).\<close>

definition score_related :: "string \<Rightarrow> string \<Rightarrow> bool \<Rightarrow> int" where
  "score_related src conf is_file =
     (let s = get_or_zero source_scores src + get_or_zero confidence_scores conf
      in if is_file then s - 5 else s)"







subsection \<open>The pipeline: deduplicated scan result, then the compositor\<close>








section \<open>The operating system as seen by the scanners\<close>

text \<open>
  A directory entry: a regular file with its size, a file whose \<^verbatim>\<open>stat\<close> raises
  \<^verbatim>\<open>OSError\<close>, a directory with its entries in listing order, a directory that cannot be
  listed (\<^verbatim>\<open>os.scandir\<close> raises \<^verbatim>\<open>OSError\<close>), and a symbolic link (to a directory or not).
\<close>

datatype fsnode =
    File string nat
  | Unstatable string
  | Dir string "fsnode list"
  | Locked string
  | Symlink string bool

text \<open>
  The library and system calls the scanners make. \<open>os_nc\<close> is
  \<^verbatim>\<open>os.path.normcase(os.path.abspath(p))\<close>, \<open>os_listing\<close> gives the entries of the directory
  at a path (\<open>None\<close> when it cannot be listed), \<open>os_environ\<close> is
  \<^verbatim>\<open>os.environ.get(name, "")\<close>.
\<close>

record os_env =
  os_nc :: "string \<Rightarrow> string"
  os_sep :: char
  os_join :: "string \<Rightarrow> string \<Rightarrow> string"
  os_isdir :: "string \<Rightarrow> bool"
  os_isfile :: "string \<Rightarrow> bool"
  os_dirname :: "string \<Rightarrow> string"
  os_basename :: "string \<Rightarrow> string"
  os_abspath :: "string \<Rightarrow> string"
  os_expandvars :: "string \<Rightarrow> string"
  os_casefold :: "string \<Rightarrow> string"
  os_environ :: "string \<Rightarrow> string"
  os_listing :: "string \<Rightarrow> fsnode list option"

text \<open>What \<^verbatim>\<open>os.walk\<close> puts into \<^verbatim>\<open>files\<close>: every entry that is not a directory.\<close>

fun walk_files :: "fsnode list \<Rightarrow> string list" where
  "walk_files [] = []"
| "walk_files (File nm sz # ns) = nm # walk_files ns"
| "walk_files (Unstatable nm # ns) = nm # walk_files ns"
| "walk_files (Symlink nm to_dir # ns) = (if to_dir then walk_files ns else nm # walk_files ns)"
| "walk_files (n # ns) = walk_files ns"

section \<open>Names, tokens and extensions (related_scanner.py)\<close>

definition is_alnum :: "char \<Rightarrow> bool" where
  "is_alnum c = (let n = (of_char c :: nat)
                 in (48 \<le> n \<and> n \<le> 57) \<or> (65 \<le> n \<and> n \<le> 90) \<or> (97 \<le> n \<and> n \<le> 122))"

definition ascii_lower :: "char \<Rightarrow> char" where
  "ascii_lower c = (let n = (of_char c :: nat)
                    in if 65 \<le> n \<and> n \<le> 90 then char_of (n + 32) else c)"

definition lower :: "string \<Rightarrow> string" where
  "lower s = map ascii_lower s"

text \<open>
  \<^verbatim>\<open>re.sub(r"[^a-zA-Z0-9]+", " ", text)\<close>: every maximal run of other characters becomes
  one space. The flag says that the previous character belonged to such a run.
\<close>

fun sub_nonalnum :: "bool \<Rightarrow> string \<Rightarrow> string" where
  "sub_nonalnum in_run [] = []"
| "sub_nonalnum in_run (c # cs) =
     (if is_alnum c then c # sub_nonalnum False cs
      else if in_run then sub_nonalnum True cs
      else CHR '' '' # sub_nonalnum True cs)"

text \<open>
  \<^verbatim>\<open>_cleaned\<close>. After the substitution only ASCII letters, digits and spaces are left,
  so \<^verbatim>\<open>casefold\<close> is ASCII lower-casing.
\<close>

definition cleaned :: "string \<Rightarrow> string" where
  "cleaned text = (if text = [] then [] else lower (py_strip (sub_nonalnum False text)))"

text \<open>\<^verbatim>\<open>str.split()\<close>: the maximal runs of characters that are not white space.\<close>

fun py_split_aux :: "string \<Rightarrow> string \<Rightarrow> string list" where
  "py_split_aux cur [] = (if cur = [] then [] else [cur])"
| "py_split_aux cur (c # cs) =
     (if py_isspace c then (if cur = [] then py_split_aux [] cs else cur # py_split_aux [] cs)
      else py_split_aux (cur @ [c]) cs)"

definition py_split :: "string \<Rightarrow> string list" where
  "py_split s = py_split_aux [] s"

text \<open>\<^verbatim>\<open>list(dict.fromkeys(xs))\<close>: the first occurrence of every element, in order.\<close>

fun unique_first :: "'a list \<Rightarrow> 'a list" where
  "unique_first [] = []"
| "unique_first (x # xs) = x # unique_first (filter (\<lambda>y. y \<noteq> x) xs)"

definition tokens :: "string \<Rightarrow> string list" where
  "tokens text =
     (if text = [] then []
      else let c = lower (py_strip (sub_nonalnum False text))
           in if c = [] then []
              else unique_first (c # filter (\<lambda>chunk. length chunk \<ge> 3) (py_split c)))"

text \<open>\<^verbatim>\<open>token in name\<close> on strings: the token occurs as a contiguous substring.\<close>

fun starts_with :: "string \<Rightarrow> string \<Rightarrow> bool" where
  "starts_with [] s = True"
| "starts_with (t # ts) [] = False"
| "starts_with (t # ts) (c # cs) = (t = c \<and> starts_with ts cs)"

fun contains :: "string \<Rightarrow> string \<Rightarrow> bool" where
  "contains t [] = (t = [])"
| "contains t (c # cs) = (starts_with t (c # cs) \<or> contains t cs)"

text \<open>
  \<^verbatim>\<open>os.path.splitext(filename)[1].lower()\<close> for a plain file name: the suffix from the last
  dot, unless only dots precede it. \<open>ext_scan\<close> reads the reversed name and collects the
  suffix.
\<close>

fun ext_scan :: "string \<Rightarrow> string \<Rightarrow> string" where
  "ext_scan acc [] = []"
| "ext_scan acc (c # cs) =
     (if c = CHR ''.'' then (if list_all (\<lambda>d. d = CHR ''.'') cs then [] else c # acc)
      else ext_scan (c # acc) cs)"

definition file_ext :: "string \<Rightarrow> string" where
  "file_ext nm = lower (ext_scan [] (rev nm))"

definition CONFIG_EXTENSIONS :: "string list" where
  "CONFIG_EXTENSIONS =
     [''.cfg'', ''.config'', ''.dat'', ''.db'', ''.ini'', ''.json'', ''.sqlite'', ''.xml'',
      ''.yaml'', ''.yml'']"

text \<open>\<^verbatim>\<open>_clean_path\<close>.\<close>

definition clean_path :: "os_env \<Rightarrow> string \<Rightarrow> string" where
  "clean_path env p =
     (let text = py_strip p in
      if text = [] then [] else os_expandvars env (strip_quotes text))"

section \<open>The config-file scan (related_scanner.py)\<close>

text \<open>
  \<^verbatim>\<open>_scan_config_files\<close>. The state of the walk is the result list, the \<^verbatim>\<open>seen\<close> set and
  a flag that the function has returned (the \<^verbatim>\<open>return results\<close> inside the loop over the
  file names). \<^verbatim>\<open>os.walk\<close> yields a directory, then descends into its sub-directories in
  listing order unless the caller emptied \<^verbatim>\<open>dirs\<close>; it skips directories it cannot list
  and does not follow symbolic links.
\<close>

definition count_sep :: "os_env \<Rightarrow> string \<Rightarrow> int" where
  "count_sep env p = int (length (filter (\<lambda>c. c = os_sep env) p))"

fun cfg_files ::
  "os_env \<Rightarrow> int \<Rightarrow> string \<Rightarrow> string list \<Rightarrow> string list \<times> string set \<times> bool
     \<Rightarrow> string list \<times> string set \<times> bool" where
  "cfg_files env max_files current [] st = st"
| "cfg_files env max_files current (filename # rest) (results, seen, returned) =
     (if returned then (results, seen, returned)
      else if int (length results) \<ge> max_files then (results, seen, True)
      else if file_ext filename \<notin> set CONFIG_EXTENSIONS
        then cfg_files env max_files current rest (results, seen, returned)
      else
        let p = os_join env current filename; norm = os_nc env p in
        if norm \<in> seen then cfg_files env max_files current rest (results, seen, returned)
        else cfg_files env max_files current rest (results @ [p], insert norm seen, returned))"

fun cfg_walk ::
  "os_env \<Rightarrow> int \<Rightarrow> int \<Rightarrow> int \<Rightarrow> string \<Rightarrow> fsnode list
     \<Rightarrow> string list \<times> string set \<times> bool \<Rightarrow> string list \<times> string set \<times> bool"
and cfg_walk_dirs ::
  "os_env \<Rightarrow> int \<Rightarrow> int \<Rightarrow> int \<Rightarrow> string \<Rightarrow> fsnode list
     \<Rightarrow> string list \<times> string set \<times> bool \<Rightarrow> string list \<times> string set \<times> bool" where
  "cfg_walk env max_depth max_files root_depth current nodes st =
     (if snd (snd st) then st
      else
        let depth = count_sep env (os_nc env current) - root_depth;
            st1 = cfg_files env max_files current (walk_files nodes) st
        in if snd (snd st1) \<or> depth \<ge> max_depth then st1
           else cfg_walk_dirs env max_depth max_files root_depth current nodes st1)"
| "cfg_walk_dirs env max_depth max_files root_depth current [] st = st"
| "cfg_walk_dirs env max_depth max_files root_depth current (Dir nm kids # rest) st =
     cfg_walk_dirs env max_depth max_files root_depth current rest
       (cfg_walk env max_depth max_files root_depth (os_join env current nm) kids st)"
| "cfg_walk_dirs env max_depth max_files root_depth current (n # rest) st =
     cfg_walk_dirs env max_depth max_files root_depth current rest st"

definition scan_config_files :: "os_env \<Rightarrow> string \<Rightarrow> int \<Rightarrow> int \<Rightarrow> string list" where
  "scan_config_files env root max_depth max_files =
     (case os_listing env root of
        None \<Rightarrow> []
      | Some nodes \<Rightarrow>
          fst (cfg_walk env max_depth max_files (count_sep env (os_nc env root)) root nodes
                 ([], {}, False)))"

section \<open>The scanner object and its caches (related_scanner.py)\<close>

record Scanner =
  max_dirs :: int
  max_files :: int
  max_depth :: int
  config_cache :: "(string \<times> string list) list"
  root_index :: "(string \<times> string \<times> string) list"
  root_index_key :: "(bool \<times> string list) option"

text \<open>\<^verbatim>\<open>_config_files_for_root\<close>: the cached list, or a scan that is then cached.\<close>

definition config_files_for_root :: "os_env \<Rightarrow> Scanner \<Rightarrow> string \<Rightarrow> string list \<times> Scanner" where
  "config_files_for_root env sc root =
     (let norm_root = os_nc env root in
      case map_of (config_cache sc) norm_root of
        Some cached \<Rightarrow> (cached, sc)
      | None \<Rightarrow>
          let files = scan_config_files env root (max_depth sc) (max_files sc)
          in (files, sc\<lparr>config_cache := AList.update norm_root files (config_cache sc)\<rparr>))"

subsection \<open>\<^verbatim>\<open>build_root_index\<close>\<close>

text \<open>\<^verbatim>\<open>_maybe_root\<close> and \<^verbatim>\<open>_default_roots\<close>.\<close>

definition maybe_root :: "os_env \<Rightarrow> string \<Rightarrow> string \<Rightarrow> (string \<times> string) list" where
  "maybe_root env p src = (if p \<noteq> [] \<and> os_isdir env p then [(p, src)] else [])"

definition default_roots :: "os_env \<Rightarrow> (string \<times> string) list" where
  "default_roots env =
     (let appdata = os_environ env ''APPDATA'';
          local_appdata = os_environ env ''LOCALAPPDATA'';
          program_data = os_environ env ''PROGRAMDATA'';
          userprofile = os_environ env ''USERPROFILE''
      in maybe_root env appdata ''appdata''
         @ maybe_root env local_appdata ''localappdata''
         @ (if local_appdata \<noteq> []
            then maybe_root env (os_join env local_appdata ''Low'') ''localappdata_low'' else [])
         @ maybe_root env program_data ''programdata''
         @ maybe_root env (os_join env userprofile ''Documents'') ''documents''
         @ maybe_root env (os_join env userprofile ''Saved Games'') ''saved_games'')"

text \<open>
  The entries of one root that are directories themselves (\<^verbatim>\<open>is_dir(follow_symlinks=False)\<close>),
  as index triples; nothing when the root cannot be listed.
\<close>

fun index_entries :: "os_env \<Rightarrow> string \<Rightarrow> string \<Rightarrow> fsnode list \<Rightarrow> (string \<times> string \<times> string) list" where
  "index_entries env root src [] = []"
| "index_entries env root src (Dir nm kids # ns) =
     (os_join env root nm, src, os_casefold env nm) # index_entries env root src ns"
| "index_entries env root src (Locked nm # ns) =
     (os_join env root nm, src, os_casefold env nm) # index_entries env root src ns"
| "index_entries env root src (n # ns) = index_entries env root src ns"

definition scan_root :: "os_env \<Rightarrow> string \<times> string \<Rightarrow> (string \<times> string \<times> string) list" where
  "scan_root env rs =
     (case os_listing env (fst rs) of
        None \<Rightarrow> []
      | Some nodes \<Rightarrow> index_entries env (fst rs) (snd rs) nodes)"

text \<open>
  \<^verbatim>\<open>build_root_index\<close> returns the index; the model also returns the new scanner state and
  the list of directories it passed to \<^verbatim>\<open>os.scandir\<close>, empty on a cache hit.
\<close>

definition existing_roots :: "os_env \<Rightarrow> string list \<Rightarrow> string list" where
  "existing_roots env extra_roots =
     filter (os_isdir env) (map (os_abspath env) (filter (\<lambda>r. r \<noteq> []) extra_roots))"

definition build_root_index ::
  "os_env \<Rightarrow> Scanner \<Rightarrow> bool \<Rightarrow> string list
     \<Rightarrow> (string \<times> string \<times> string) list \<times> Scanner \<times> string list" where
  "build_root_index env sc deep_scan extra_roots =
     (let roots = existing_roots env extra_roots;
          k = (deep_scan, roots)
      in if root_index sc \<noteq> [] \<and> root_index_key sc = Some k then (root_index sc, sc, [])
         else
           let scanned = (if deep_scan then default_roots env else [])
                         @ map (\<lambda>r. (r, ''drive'')) roots;
               index = concat (map (scan_root env) scanned)
           in (index, sc\<lparr>root_index := index, root_index_key := Some k\<rparr>, map fst scanned))"

subsection \<open>\<^verbatim>\<open>scan_for_app\<close>\<close>

text \<open>The loop over the root index, with its \<^verbatim>\<open>continue\<close> and \<^verbatim>\<open>break\<close>.\<close>

fun index_candidates ::
  "os_env \<Rightarrow> int \<Rightarrow> string \<Rightarrow> string \<Rightarrow> string list \<Rightarrow> string list
     \<Rightarrow> (string \<times> string \<times> string) list
     \<Rightarrow> (string \<times> string \<times> string) list \<times> string set
     \<Rightarrow> (string \<times> string \<times> string) list \<times> string set" where
  "index_candidates env maxd cleaned_name cleaned_pub tokens_name tokens_pub [] st = st"
| "index_candidates env maxd cleaned_name cleaned_pub tokens_name tokens_pub
     ((p, src, name_cf) # rest) (candidates, seen_dirs) =
     (let name_clean = cleaned name_cf;
          exact_name = (cleaned_name \<noteq> [] \<and> name_clean = cleaned_name);
          exact_pub = (cleaned_pub \<noteq> [] \<and> name_clean = cleaned_pub);
          conf = (if exact_name then Some ''High''
                  else if list_ex (\<lambda>t. contains t name_cf) tokens_name then Some ''Medium''
                  else if exact_pub \<or> list_ex (\<lambda>t. contains t name_cf) tokens_pub then Some ''Low''
                  else None)
      in case conf of
           None \<Rightarrow> index_candidates env maxd cleaned_name cleaned_pub tokens_name tokens_pub rest
                     (candidates, seen_dirs)
         | Some cf \<Rightarrow>
             let norm = os_nc env p in
             if norm \<in> seen_dirs
             then index_candidates env maxd cleaned_name cleaned_pub tokens_name tokens_pub rest
                    (candidates, seen_dirs)
             else
               let candidates' = candidates @ [(p, src, cf)] in
               if int (length candidates') \<ge> maxd then (candidates', insert norm seen_dirs)
               else index_candidates env maxd cleaned_name cleaned_pub tokens_name tokens_pub rest
                      (candidates', insert norm seen_dirs))"

text \<open>
  The confidence given to a file found under a directory candidate:
  \<^verbatim>\<open>confidence if confidence == "High" else "Medium"\<close>.
\<close>

definition file_confidence :: "string \<Rightarrow> string" where
  "file_confidence conf = (if conf = ''High'' then conf else ''Medium'')"

definition config_record :: "string \<Rightarrow> string \<Rightarrow> string \<Rightarrow> RelatedFile" where
  "config_record file_path src conf =
     \<lparr>path = file_path, kind = ''file'', source = ''config_file'',
      confidence = file_confidence conf, marked = '''',
      score = score_related src (file_confidence conf) True\<rparr>"

definition dir_record :: "string \<Rightarrow> string \<Rightarrow> string \<Rightarrow> RelatedFile" where
  "dir_record p src conf =
     \<lparr>path = p, kind = ''dir'', source = src, confidence = conf, marked = '''',
      score = score_related src conf False\<rparr>"

text \<open>
  The inner loop over the config files of one candidate. \<^verbatim>\<open>seen_files\<close> is kept as the
  list of its elements, so that \<^verbatim>\<open>len(seen_files)\<close> is its length.
\<close>

fun candidate_files ::
  "os_env \<Rightarrow> int \<Rightarrow> string \<Rightarrow> string \<Rightarrow> string list \<Rightarrow> RelatedFile list \<times> string list
     \<Rightarrow> RelatedFile list \<times> string list" where
  "candidate_files env maxf src conf [] st = st"
| "candidate_files env maxf src conf (file_path # rest) (related, seen_files) =
     (if int (length seen_files) \<ge> maxf then (related, seen_files)
      else
        let norm = os_nc env file_path in
        if norm \<in> set seen_files then candidate_files env maxf src conf rest (related, seen_files)
        else candidate_files env maxf src conf rest
               (related @ [config_record file_path src conf], seen_files @ [norm]))"

fun expand_candidates ::
  "os_env \<Rightarrow> bool \<Rightarrow> (string \<times> string \<times> string) list
     \<Rightarrow> RelatedFile list \<times> string list \<times> Scanner \<Rightarrow> RelatedFile list \<times> string list \<times> Scanner" where
  "expand_candidates env include_files [] st = st"
| "expand_candidates env include_files ((p, src, conf) # rest) (related, seen_files, sc) =
     (let related1 = related @ [dir_record p src conf] in
      if \<not> include_files then expand_candidates env include_files rest (related1, seen_files, sc)
      else
        let (files, sc1) = config_files_for_root env sc p;
            (related2, seen2) = candidate_files env (max_files sc) src conf files (related1, seen_files)
        in if int (length seen2) \<ge> max_files sc then (related2, seen2, sc1)
           else expand_candidates env include_files rest (related2, seen2, sc1))"

text \<open>
  The first half of \<^verbatim>\<open>scan_for_app\<close>: the candidate directories, from the declared
  install location and from the root index.
\<close>

definition collect_candidates ::
  "os_env \<Rightarrow> Scanner \<Rightarrow> AppEntry \<Rightarrow> bool \<Rightarrow> (string \<times> string \<times> string) list option
     \<Rightarrow> string list \<Rightarrow> (string \<times> string \<times> string) list \<times> Scanner" where
  "collect_candidates env sc app deep_scan root_index_arg extra_roots =
     (let tokens_name = tokens (name app);
          tokens_pub = tokens (publisher app);
          cleaned_name = cleaned (name app);
          cleaned_pub = cleaned (publisher app);
          loc0 = clean_path env (install_location app);
          loc = (if loc0 \<noteq> [] \<and> os_isfile env loc0 then os_dirname env loc0 else loc0);
          st0 = (if loc \<noteq> [] \<and> os_isdir env loc
                 then ([(loc, ''install_location'', ''High'')], {os_nc env loc})
                 else ([], {}))
      in if deep_scan \<or> extra_roots \<noteq> []
         then
           let (idx, sc') = (case root_index_arg of
                  Some idx \<Rightarrow> (idx, sc)
                | None \<Rightarrow> (let (i, s, t) = build_root_index env sc deep_scan extra_roots
                            in (i, s)))
           in (fst (index_candidates env (max_dirs sc') cleaned_name cleaned_pub
                      tokens_name tokens_pub idx st0), sc')
         else (fst st0, sc))"

text \<open>\<^verbatim>\<open>scan_for_app\<close>: the result list and the scanner with its caches updated.\<close>

definition scan_for_app ::
  "os_env \<Rightarrow> Scanner \<Rightarrow> AppEntry \<Rightarrow> bool \<Rightarrow> bool \<Rightarrow> (string \<times> string \<times> string) list option
     \<Rightarrow> string list \<Rightarrow> RelatedFile list \<times> Scanner" where
  "scan_for_app env sc app deep_scan include_files root_index_arg extra_roots =
     (if tokens (name app) = [] \<and> tokens (publisher app) = [] then ([], sc)
      else
        let (candidates, sc1) = collect_candidates env sc app deep_scan root_index_arg extra_roots;
            (related, seen_files, sc2) = expand_candidates env include_files candidates ([], [], sc1)
        in (related, sc2))"

section \<open>Concrete applications and override records used as instances\<close>

definition wA :: AppEntry where
  "wA = \<lparr>name = ''A'', version = '''', publisher = '''', install_location = '''',
         related_files = [\<lparr>path = ''/p'', kind = ''file'', source = ''drive'',
                           confidence = ''Low'', marked = '''', score = 50\<rparr>]\<rparr>"

definition wB :: AppEntry where
  "wB = \<lparr>name = ''B'', version = '''', publisher = '''', install_location = '''',
         related_files = []\<rparr>"

definition c_ignore_reassign :: Controller where
  "c_ignore_reassign =
     \<lparr>related_manual = [], related_ignore = [(''1|A|0|'', [''/p''])],
      related_unassigned = [], related_overrides = [(''/p'', ''1|B|0|'')]\<rparr>"

definition c_manual_ignored :: Controller where
  "c_manual_ignored =
     \<lparr>related_manual = [(''1|A|0|'', [\<lparr>me_path = ''/m'', me_kind = ''file''\<rparr>])],
      related_ignore = [(''1|A|0|'', [''/m''])],
      related_unassigned = [], related_overrides = []\<rparr>"




section \<open>Properties of the override layers\<close>















lemma key_related_files [simp]: "key (a\<lparr>related_files := x\<rparr>) = key a"
  by (simp add: key_def)

lemma key_manual_append [simp]: "key (manual_append nc n kd p a) = key a"
  by (simp add: manual_append_def)

lemma map_key_upd_last: "(\<And>a. key (f a) = key a) \<Longrightarrow> map key (upd_last f k apps) = map key apps"
  by (induction apps) auto




lemma keys_upd_last_append [simp]:
  "key ` set (upd_last (manual_append nc n kd p) k apps) = key ` set apps"
proof -
  have "map key (upd_last (manual_append nc n kd p) k apps) = map key apps"
    by (rule map_key_upd_last) simp
  then have "set (map key (upd_last (manual_append nc n kd p) k apps)) = set (map key apps)"
    by simp
  then show ?thesis by simp
qed

















lemma seen_in_append [simp]: "seen_in nc (xs @ ys) = seen_in nc xs \<union> seen_in nc ys"
  by (simp add: seen_in_def)

lemma seen_in_single [simp]: "seen_in nc [r] = {rnorm nc r}"
  by (simp add: seen_in_def)

lemma seen_in_nil [simp]: "seen_in nc [] = {}"
  by (simp add: seen_in_def)


























section \<open>Manual records of unknown applications\<close>

lemma manual_by_path_skip:
  "k \<notin> set keys \<Longrightarrow>
   manual_by_path nc keys (xs @ (k, items) # ys) m = manual_by_path nc keys (xs @ ys) m"
  by (induction xs arbitrary: m) auto

text \<open>
  Claim C10. A manual record whose application key matches no application of the list has
  no effect on the manual layer: with or without the record the layer returns the same
  lists, so no entry is created for its paths and no other application loses a record on
  its account; when it is the only manual record the lists are returned unchanged.
\<close>

theorem manual_unknown_key_no_effect:
  assumes "k \<notin> set (map key apps)"
  shows "apply_manual_related nc (c\<lparr>related_manual := xs @ (k, items) # ys\<rparr>) apps
           = apply_manual_related nc (c\<lparr>related_manual := xs @ ys\<rparr>) apps
         \<and> apply_manual_related nc (c\<lparr>related_manual := [(k, items)]\<rparr>) apps = apps"
proof
  have m: "manual_by_path nc (map key apps) (xs @ (k, items) # ys) []
             = manual_by_path nc (map key apps) (xs @ ys) []"
    using assms by (rule manual_by_path_skip)
  show "apply_manual_related nc (c\<lparr>related_manual := xs @ (k, items) # ys\<rparr>) apps
           = apply_manual_related nc (c\<lparr>related_manual := xs @ ys\<rparr>) apps"
  proof (cases "xs @ ys = []")
    case True
    then show ?thesis using assms by (simp add: apply_manual_related_def)
  next
    case False
    then show ?thesis using assms by (auto simp: apply_manual_related_def m)
  qed
next
  show "apply_manual_related nc (c\<lparr>related_manual := [(k, items)]\<rparr>) apps = apps"
    using assms by (simp add: apply_manual_related_def)
qed

lemma key_wA: "key wA = ''1|A|0|''"
  by code_simp

theorem manual_unknown_key_no_effect_witness:
  "''9|Z|0|'' \<notin> set (map key [wA])
   \<and> apply_manual_related id
        \<lparr>related_manual = [(''9|Z|0|'', [\<lparr>me_path = ''/p'', me_kind = ''file''\<rparr>])],
         related_ignore = [], related_unassigned = [], related_overrides = []\<rparr> [wA] = [wA]"
proof -
  have h: "''9|Z|0|'' \<notin> set (map key [wA])" by (simp add: key_wA)
  have "apply_manual_related id
        (\<lparr>related_manual = [], related_ignore = [], related_unassigned = [],
          related_overrides = []\<rparr>\<lparr>related_manual := [(''9|Z|0|'', [\<lparr>me_path = ''/p'', me_kind = ''file''\<rparr>])]\<rparr>) [wA] = [wA]"
    using manual_unknown_key_no_effect[OF h] by (rule conjunct2)
  then show ?thesis using h by simp
qed

section \<open>Order of the layers\<close>

lemma norm_filter_keys: "map key (apply_norm_filter nc recs apps) = map key apps"
  by (auto simp: apply_norm_filter_def Let_def split: option.splits)

lemma norm_filter_origin:
  assumes "a' \<in> set (apply_norm_filter nc recs apps)"
  shows "\<exists>a \<in> set apps. key a = key a' \<and> set (related_files a') \<subseteq> set (related_files a)"
proof (cases "recs = [] \<or> norms_by_key nc recs [] = []")
  case True
  then have "apply_norm_filter nc recs apps = apps"
    by (auto simp: apply_norm_filter_def Let_def)
  with assms show ?thesis by auto
next
  case False
  with assms obtain a where a: "a \<in> set apps"
    "a' = (case map_of (norms_by_key nc recs []) (key a) of None \<Rightarrow> a
           | Some norms \<Rightarrow> a\<lparr>related_files := drop_listed nc norms (related_files a)\<rparr>)"
    by (auto simp: apply_norm_filter_def Let_def)
  then have "key a = key a' \<and> set (related_files a') \<subseteq> set (related_files a)"
    by (auto simp: drop_listed_def split: option.splits)
  with a(1) show ?thesis by blast
qed

lemma norms_by_key_nil: "norms_by_key nc [] [] = []"
  by simp

lemma norm_filter_drops:
  assumes "a' \<in> set (apply_norm_filter nc recs apps)" "r \<in> set (related_files a')"
    "rnorm nc r \<noteq> []" "rnorm nc r \<in> listed_norms nc recs (key a')"
  shows "source r = ''manual''"
proof (cases "recs = [] \<or> norms_by_key nc recs [] = []")
  case True
  then have "listed_norms nc recs (key a') = {}"
    by (auto simp: listed_norms_def)
  with assms(4) show ?thesis by simp
next
  case False
  with assms(1) obtain a where a: "a \<in> set apps"
    "a' = (case map_of (norms_by_key nc recs []) (key a) of None \<Rightarrow> a
           | Some norms \<Rightarrow> a\<lparr>related_files := drop_listed nc norms (related_files a)\<rparr>)"
    by (auto simp: apply_norm_filter_def Let_def)
  show ?thesis
  proof (cases "map_of (norms_by_key nc recs []) (key a)")
    case None
    then have "a' = a" using a(2) by simp
    then have "listed_norms nc recs (key a') = {}"
      using None by (simp add: listed_norms_def)
    with assms(4) show ?thesis by simp
  next
    case (Some S)
    then have a': "a' = a\<lparr>related_files := drop_listed nc S (related_files a)\<rparr>"
      using a(2) by simp
    then have "listed_norms nc recs (key a') = S"
      using Some by (simp add: listed_norms_def)
    with assms(2,3,4) a' show ?thesis by (auto simp: drop_listed_def)
  qed
qed

text \<open>
  Claim C5, as amended. The compositor runs the manual layer first, then the reassignment
  layer, then the ignore layer and the unassigned layer last. Because the two removal
  layers run after reassignment, no application ends with a non-manual record whose
  normalised path is ignored for it or unassigned from it, even when a reassignment
  targets that application.
\<close>

theorem layers_applied_in_code_order:
  "apply_layers nc c apps =
     apply_related_unassigned nc c
       (apply_related_ignores nc c
         (apply_related_overrides nc c (apply_manual_related nc c apps)))
   \<and> (\<forall>a \<in> set (apply_layers nc c apps). \<forall>r \<in> set (related_files a).
         rnorm nc r \<noteq> [] \<and>
         (rnorm nc r \<in> listed_norms nc (related_ignore c) (key a)
          \<or> rnorm nc r \<in> listed_norms nc (related_unassigned c) (key a))
         \<longrightarrow> source r = ''manual'')"
proof (intro conjI ballI impI)
  show "apply_layers nc c apps =
     apply_related_unassigned nc c
       (apply_related_ignores nc c
         (apply_related_overrides nc c (apply_manual_related nc c apps)))"
    by (simp add: apply_layers_def)
next
  fix a r
  assume a: "a \<in> set (apply_layers nc c apps)" and r: "r \<in> set (related_files a)"
    and h: "rnorm nc r \<noteq> [] \<and>
         (rnorm nc r \<in> listed_norms nc (related_ignore c) (key a)
          \<or> rnorm nc r \<in> listed_norms nc (related_unassigned c) (key a))"
  define x where "x = apply_related_overrides nc c (apply_manual_related nc c apps)"
  have a_un: "a \<in> set (apply_norm_filter nc (related_unassigned c)
                          (apply_norm_filter nc (related_ignore c) x))"
    using a by (simp add: apply_layers_def x_def apply_related_unassigned_def apply_related_ignores_def)
  from h show "source r = ''manual''"
  proof (elim conjE disjE)
    assume n: "rnorm nc r \<noteq> []" and i: "rnorm nc r \<in> listed_norms nc (related_ignore c) (key a)"
    from norm_filter_origin[OF a_un] obtain a0 where a0:
      "a0 \<in> set (apply_norm_filter nc (related_ignore c) x)" "key a0 = key a"
      "set (related_files a) \<subseteq> set (related_files a0)" by blast
    have "r \<in> set (related_files a0)" using a0(3) r by blast
    then show ?thesis using norm_filter_drops[OF a0(1) _ n] i a0(2) by simp
  next
    assume n: "rnorm nc r \<noteq> []" and u: "rnorm nc r \<in> listed_norms nc (related_unassigned c) (key a)"
    show ?thesis by (rule norm_filter_drops[OF a_un r n u])
  qed
qed

text \<open>
  The order of the claim (reassignment last) gives another result: a path ignored for
  its holder and reassigned to a second application reaches that application in the
  code, and nobody in the claimed order.
\<close>

theorem layers_spec_order_counterexample:
  "apply_layers id c_ignore_reassign [wA, wB] \<noteq> spec_order_layers id c_ignore_reassign [wA, wB]"
  by code_simp

theorem layers_applied_in_code_order_witness:
  "manual_record ''/m'' ''file'' \<in> set (related_files (hd (apply_layers id c_manual_ignored [wA])))
   \<and> hd (apply_layers id c_manual_ignored [wA]) \<in> set (apply_layers id c_manual_ignored [wA])
   \<and> rnorm id (manual_record ''/m'' ''file'') \<noteq> []
   \<and> rnorm id (manual_record ''/m'' ''file'')
        \<in> listed_norms id (related_ignore c_manual_ignored) (key (hd (apply_layers id c_manual_ignored [wA])))
   \<and> source (manual_record ''/m'' ''file'') = ''manual''"
proof -
  let ?a = "hd (apply_layers id c_manual_ignored [wA])"
  let ?r = "manual_record ''/m'' ''file''"
  have 1: "?r \<in> set (related_files ?a)" by code_simp
  have 2: "?a \<in> set (apply_layers id c_manual_ignored [wA])" by code_simp
  have 3: "rnorm id ?r \<noteq> []" by code_simp
  have 4: "rnorm id ?r \<in> listed_norms id (related_ignore c_manual_ignored) (key ?a)" by code_simp
  have "source ?r = ''manual''"
    using layers_applied_in_code_order[of id c_manual_ignored "[wA]"] 1 2 3 4 by blast
  with 1 2 3 4 show ?thesis by blast
qed

section \<open>Idempotence of the layers and of the compositor\<close>













































section \<open>Exclusive ownership through deduplication and the layers\<close>






















section \<open>Manual records keep their owner\<close>

lemma nrp_nil [simp]: "normalize_related_path nc [] = []"
  by (simp add: normalize_related_path_def py_strip_def strip_quotes_def strip_by_def)

lemma nrp_nonempty_arg: "normalize_related_path nc p \<noteq> [] \<Longrightarrow> p \<noteq> []"
  by auto
















end
